theory Spec2Isabelle
  imports Main
begin

section \<open>The ingest command of ingestr (src/ingestr/main.py)\<close>

text \<open>
  The module holds one command of interest, \<open>ingest\<close>: it fills in the destination
  table, rewrites the \<open>delete+insert\<close> strategy into a merge keyed by the incremental
  key, asks the factory for the source and the destination, names a dlt pipeline by the
  SHA-256 digest of the destination table, asks the user to confirm, and calls
  \<open>pipeline.run\<close>. The model follows that order.

  From \<open>dlt.pipeline\<close> on, \<open>ingest\<close> only calls into dlt and into the two handles
  (\<open>dlt_dest\<close>, \<open>dlt_source\<close>, \<open>dlt_run_params\<close>, \<open>pipeline.run\<close>). The model
  records these calls with their arguments and does not look inside them: its outcome
  is the call \<open>ingest\<close> makes, not what the engine does with it. Console output and
  the report after \<open>pipeline.run\<close> returns (lines 146 to 154) are left out.
\<close>

subsection \<open>Timestamps\<close>

text \<open>
  \<open>interval_start\<close> and \<open>interval_end\<close> are Python \<open>datetime\<close> values, parsed by
  typer with one of \<open>DATE_FORMATS\<close>. The formats ending in \<open>%z\<close> give an aware value
  (with an offset from UTC, here in microseconds), the others a naive one.
\<close>

record datetime =
  dt_year :: nat
  dt_month :: nat
  dt_day :: nat
  dt_hour :: nat
  dt_minute :: nat
  dt_second :: nat
  dt_microsecond :: nat
  dt_utcoffset :: "int option"








subsection \<open>The command line and the parameters of \<open>ingest\<close>\<close>

text \<open>
  What the user typed: the three required options, and the optional ones, each given
  or not. \<open>--primary-key\<close> may be repeated; typer hands over the list of its values.
\<close>

record cli_options =
  opt_source_uri :: string
  opt_dest_uri :: string
  opt_source_table :: string
  opt_dest_table :: "string option"
  opt_incremental_key :: "string option"
  opt_incremental_strategy :: "string option"
  opt_interval_start :: "datetime option"
  opt_interval_end :: "datetime option"
  opt_primary_key :: "string list option"

text \<open>The parameters of \<open>ingest\<close> (lines 34 to 77); \<open>None\<close> is Python's \<open>None\<close>.\<close>

record ingest_args =
  source_uri :: string
  dest_uri :: string
  source_table :: string
  dest_table :: "string option"
  incremental_key :: "string option"
  incremental_strategy :: string
  interval_start :: "datetime option"
  interval_end :: "datetime option"
  primary_key :: "string list option"

text \<open>
  The defaults of the signature: \<open>None\<close> for every optional parameter but
  \<open>incremental_strategy\<close>, whose default is \<open>"replace"\<close> (line 61).
\<close>

definition with_defaults :: "cli_options \<Rightarrow> ingest_args" where
  "with_defaults opts =
     \<lparr>source_uri = opt_source_uri opts,
      dest_uri = opt_dest_uri opts,
      source_table = opt_source_table opts,
      dest_table = opt_dest_table opts,
      incremental_key = opt_incremental_key opts,
      incremental_strategy =
        (case opt_incremental_strategy opts of None \<Rightarrow> ''replace'' | Some s \<Rightarrow> s),
      interval_start = opt_interval_start opts,
      interval_end = opt_interval_end opts,
      primary_key = opt_primary_key opts\<rparr>"

subsection \<open>Collaborators\<close>

text \<open>
  Modelled from the spec: the factory (\<open>ingestr/src/factory.py\<close>) is not among the
  sources, so what it raises is named by the error taxonomy of the specification
  (section 7). \<open>UnicodeEncodeError\<close> is what \<open>str.encode\<close> raises on text that has
  no UTF-8 encoding. \<open>ingest\<close> itself has no \<open>raise\<close> but \<open>typer.Abort\<close>.
\<close>

datatype error =
    MalformedURI
  | UnknownScheme
  | UnsupportedRole
  | UnsupportedStrategy
  | MissingMergeKey
  | InvalidInterval
  | DanglingIntervalBound
  | UnicodeEncodeError

text \<open>
  The collaborators of \<open>ingest\<close> are parameters of the model: the factory and its two
  getters (each may raise), the digest \<open>hashlib.sha256(t.encode("utf-8")).hexdigest()\<close>
  as a function of the text \<open>t\<close>, and the user's answer to \<open>typer.confirm\<close>. The
  factory object and the two handles are opaque (\<open>'f\<close>, \<open>'s\<close>, \<open>'d\<close>).
\<close>

record ('f, 's, 'd) env =
  factory_new :: "string \<Rightarrow> string \<Rightarrow> error + 'f"
  get_source :: "'f \<Rightarrow> error + 's"
  get_destination :: "'f \<Rightarrow> error + 'd"
  sha256_hexdigest :: "string \<Rightarrow> error + string"
  confirm :: bool

subsection \<open>The calls \<open>ingest\<close> makes\<close>

text \<open>The arguments of \<open>dlt.pipeline\<close> (lines 97 to 105).\<close>

record 'd pipeline =
  pipeline_name :: string
  dlt_dest_handle :: 'd
  dlt_dest_uri :: string
  dump_system_stats :: bool
  pipelines_dir :: string
  dataset_name :: string

text \<open>The arguments of \<open>source.dlt_source\<close> (lines 130 to 137).\<close>

record 's source_request =
  req_source :: 's
  req_uri :: string
  req_table :: string
  req_incremental_key :: "string option"
  req_merge_key :: "string option"
  req_interval_start :: "datetime option"
  req_interval_end :: "datetime option"

text \<open>
  The arguments of \<open>pipeline.run\<close> (lines 129 to 144): the source request, the
  arguments of \<open>destination.dlt_run_params\<close>, the write disposition and the primary key.
\<close>

record ('s, 'd) run_call =
  run_source :: "'s source_request"
  run_destination :: 'd
  run_params_uri :: string
  run_params_table :: string
  write_disposition :: string
  run_primary_key :: "string list option"

text \<open>
  How an invocation ends: a collaborator raised before the pipeline was set up, the user
  declined at the prompt (\<open>typer.Abort\<close>; the pipeline object exists by then), or
  \<open>ingest\<close> went on to \<open>pipeline.run\<close> with the arguments recorded.
\<close>

datatype ('s, 'd) outcome =
    Failed error
  | Aborted "'d pipeline"
  | EngineInvoked "'d pipeline" "('s, 'd) run_call"

subsection \<open>\<open>ingest\<close>\<close>

text \<open>Python's truth value of an optional string: \<open>None\<close> and \<open>""\<close> are false.\<close>

definition truthy :: "string option \<Rightarrow> bool" where
  "truthy s = (case s of None \<Rightarrow> False | Some t \<Rightarrow> t \<noteq> [])"

text \<open>Lines 78 to 83: a destination table that is not given is the source table.\<close>

definition effective_dest_table :: "ingest_args \<Rightarrow> string" where
  "effective_dest_table a =
     (if \<not> truthy (dest_table a) then source_table a
      else (case dest_table a of Some t \<Rightarrow> t | None \<Rightarrow> source_table a))"

text \<open>
  Lines 85 to 88: the merge key starts as \<open>None\<close>; \<open>delete+insert\<close> sets it to the
  incremental key and becomes \<open>merge\<close>. The result is the pair
  \<open>(merge_key, incremental_strategy)\<close> as the rest of the function sees them.
\<close>

definition resolve_strategy :: "string \<Rightarrow> string option \<Rightarrow> string option \<times> string" where
  "resolve_strategy strategy key =
     (let merge_key = None in
      if strategy = ''delete+insert'' then (key, ''merge'') else (merge_key, strategy))"

text \<open>
  Line 143: \<open>primary_key if primary_key and len(primary_key) > 0 else None\<close>.
\<close>

definition normalize_primary_key :: "string list option \<Rightarrow> string list option" where
  "normalize_primary_key pk =
     (case pk of
        None \<Rightarrow> None
      | Some ks \<Rightarrow> if ks \<noteq> [] \<and> length ks > 0 then Some ks else None)"

definition ingest :: "('f, 's, 'd) env \<Rightarrow> ingest_args \<Rightarrow> ('s, 'd) outcome" where
  "ingest env a =
     (let dest_table' = effective_dest_table a;
          (merge_key, incremental_strategy') =
             resolve_strategy (incremental_strategy a) (incremental_key a)
      in
      case factory_new env (source_uri a) (dest_uri a) of
        Inl e \<Rightarrow> Failed e
      | Inr factory \<Rightarrow>
      (case get_source env factory of
        Inl e \<Rightarrow> Failed e
      | Inr source \<Rightarrow>
      (case get_destination env factory of
        Inl e \<Rightarrow> Failed e
      | Inr destination \<Rightarrow>
      (case sha256_hexdigest env dest_table' of
        Inl e \<Rightarrow> Failed e
      | Inr hexdigest \<Rightarrow>
      (let pipeline =
             \<lparr>pipeline_name = hexdigest,
              dlt_dest_handle = destination,
              dlt_dest_uri = dest_uri a,
              dump_system_stats = False,
              pipelines_dir = ''pipeline_data'',
              dataset_name = ''testschema''\<rparr>
       in
       if \<not> confirm env then Aborted pipeline
       else EngineInvoked pipeline
              \<lparr>run_source =
                 \<lparr>req_source = source,
                  req_uri = source_uri a,
                  req_table = source_table a,
                  req_incremental_key = incremental_key a,
                  req_merge_key = merge_key,
                  req_interval_start = interval_start a,
                  req_interval_end = interval_end a\<rparr>,
               run_destination = destination,
               run_params_uri = dest_uri a,
               run_params_table = dest_table',
               write_disposition = incremental_strategy',
               run_primary_key = normalize_primary_key (primary_key a)\<rparr>)))))"

text \<open>
  Whether every collaborator \<open>ingest\<close> calls before the prompt returns: the factory,
  its two getters, and the digest of the destination table.
\<close>

definition collaborators_succeed :: "('f, 's, 'd) env \<Rightarrow> ingest_args \<Rightarrow> bool" where
  "collaborators_succeed env a =
     (case factory_new env (source_uri a) (dest_uri a) of
        Inl e \<Rightarrow> False
      | Inr factory \<Rightarrow>
          isl (get_source env factory) = False \<and>
          isl (get_destination env factory) = False \<and>
          isl (sha256_hexdigest env (effective_dest_table a)) = False)"

subsection \<open>Example collaborators and invocations\<close>

text \<open>
  A factory that accepts every pair of URIs and names each handle by the scheme of its
  URI, a user who confirms, and a stand-in for the digest. They serve to run \<open>ingest\<close>
  on concrete invocations; no general theorem below depends on them.
\<close>

definition scheme_of :: "string \<Rightarrow> string" where
  "scheme_of uri = takeWhile (\<lambda>c. c \<noteq> CHR '':'') uri"

definition example_env :: "(string \<times> string, string, string) env" where
  "example_env =
     \<lparr>factory_new = (\<lambda>s d. Inr (scheme_of s, scheme_of d)),
      get_source = (\<lambda>f. Inr (fst f)),
      get_destination = (\<lambda>f. Inr (snd f)),
      sha256_hexdigest = (\<lambda>t. Inr (''sha256:'' @ t)),
      confirm = True\<rparr>"

text \<open>
  The invocation of the specification's first scenario: only the two URIs and the source
  table are given.
\<close>

definition orders_opts :: cli_options where
  "orders_opts =
     \<lparr>opt_source_uri = ''postgres://u:p@h/db'',
      opt_dest_uri = ''duckdb://path/db'',
      opt_source_table = ''orders'',
      opt_dest_table = None,
      opt_incremental_key = None,
      opt_incremental_strategy = None,
      opt_interval_start = None,
      opt_interval_end = None,
      opt_primary_key = None\<rparr>"

definition orders_args :: ingest_args where
  "orders_args =
     \<lparr>source_uri = ''postgres://u:p@h/db'',
      dest_uri = ''duckdb://path/db'',
      source_table = ''orders'',
      dest_table = None,
      incremental_key = None,
      incremental_strategy = ''replace'',
      interval_start = None,
      interval_end = None,
      primary_key = None\<rparr>"

text \<open>What \<open>dlt.pipeline\<close> and \<open>pipeline.run\<close> receive on that invocation.\<close>

definition orders_pipeline :: "string pipeline" where
  "orders_pipeline =
     \<lparr>pipeline_name = ''sha256:orders'',
      dlt_dest_handle = ''duckdb'',
      dlt_dest_uri = ''duckdb://path/db'',
      dump_system_stats = False,
      pipelines_dir = ''pipeline_data'',
      dataset_name = ''testschema''\<rparr>"

definition orders_request :: "string source_request" where
  "orders_request =
     \<lparr>req_source = ''postgres'',
      req_uri = ''postgres://u:p@h/db'',
      req_table = ''orders'',
      req_incremental_key = None,
      req_merge_key = None,
      req_interval_start = None,
      req_interval_end = None\<rparr>"

definition orders_run :: "(string, string) run_call" where
  "orders_run =
     \<lparr>run_source = orders_request,
      run_destination = ''duckdb'',
      run_params_uri = ''duckdb://path/db'',
      run_params_table = ''orders'',
      write_disposition = ''replace'',
      run_primary_key = None\<rparr>"



text \<open>Variations of that invocation, one option changed at a time.\<close>

definition delete_insert_args :: ingest_args where
  "delete_insert_args =
     orders_args\<lparr>incremental_key := Some ''id'', incremental_strategy := ''delete+insert''\<rparr>"

definition delete_insert_run :: "(string, string) run_call" where
  "delete_insert_run =
     orders_run
       \<lparr>run_source := orders_request\<lparr>req_incremental_key := Some ''id'', req_merge_key := Some ''id''\<rparr>,
        write_disposition := ''merge''\<rparr>"

text \<open>
  The delete+insert invocation run again with the strategy \<open>merge\<close> it resolved to.
\<close>

definition reresolved_run :: "(string, string) run_call" where
  "reresolved_run =
     orders_run
       \<lparr>run_source := orders_request\<lparr>req_incremental_key := Some ''id''\<rparr>,
        write_disposition := ''merge''\<rparr>"

definition merge_args :: ingest_args where
  "merge_args = orders_args\<lparr>incremental_strategy := ''merge''\<rparr>"

definition merge_run :: "(string, string) run_call" where
  "merge_run = orders_run\<lparr>write_disposition := ''merge''\<rparr>"





definition upsert_args :: ingest_args where
  "upsert_args = orders_args\<lparr>incremental_strategy := ''upsert''\<rparr>"

definition upsert_run :: "(string, string) run_call" where
  "upsert_run = orders_run\<lparr>write_disposition := ''upsert''\<rparr>"

definition merge_pk_args :: ingest_args where
  "merge_pk_args = merge_args\<lparr>primary_key := Some [''id'', ''region'']\<rparr>"

definition merge_pk_run :: "(string, string) run_call" where
  "merge_pk_run = merge_run\<lparr>run_primary_key := Some [''id'', ''region'']\<rparr>"

section \<open>Properties\<close>

lemmas example_defs =
  ingest_def example_env_def orders_args_def orders_pipeline_def orders_request_def
  orders_run_def scheme_of_def effective_dest_table_def truthy_def resolve_strategy_def
  normalize_primary_key_def Let_def

subsection \<open>When the engine is reached\<close>

text \<open>
  The engine is called exactly when every collaborator returns and the user confirms.
\<close>

lemma engine_invoked_iff:
  "(\<exists>p r. ingest env a = EngineInvoked p r) \<longleftrightarrow> collaborators_succeed env a \<and> confirm env"
  by (auto simp: ingest_def collaborators_succeed_def Let_def
      split: prod.splits sum.splits if_splits)

text \<open>What the engine receives, read off the parameters of the invocation.\<close>

lemma engine_invokedD:
  assumes "ingest env a = EngineInvoked p r"
  shows "req_incremental_key (run_source r) = incremental_key a"
    and "req_merge_key (run_source r) =
           fst (resolve_strategy (incremental_strategy a) (incremental_key a))"
    and "req_interval_start (run_source r) = interval_start a"
    and "req_interval_end (run_source r) = interval_end a"
    and "req_table (run_source r) = source_table a"
    and "run_params_table r = effective_dest_table a"
    and "write_disposition r =
           snd (resolve_strategy (incremental_strategy a) (incremental_key a))"
    and "run_primary_key r = normalize_primary_key (primary_key a)"
    and "sha256_hexdigest env (effective_dest_table a) = Inr (pipeline_name p)"
  using assms
  by (auto simp: ingest_def Let_def split: prod.splits sum.splits if_splits)

text \<open>
  \<open>ingest\<close> has no failure of its own: an error it ends with is one a collaborator
  returned.
\<close>

lemma ingest_failed_origin:
  assumes "ingest env a = Failed e"
  shows "factory_new env (source_uri a) (dest_uri a) = Inl e \<or>
         (\<exists>f. factory_new env (source_uri a) (dest_uri a) = Inr f \<and>
              (get_source env f = Inl e \<or> get_destination env f = Inl e)) \<or>
         sha256_hexdigest env (effective_dest_table a) = Inl e"
  using assms
  by (auto simp: ingest_def Let_def split: prod.splits sum.splits if_splits)

text \<open>
  The name of the pipeline is the digest of the destination table the run uses, and of
  nothing else: two invocations that reach the engine with the same destination table
  name their pipelines alike.
\<close>

lemma pipeline_name_deterministic:
  assumes "ingest env a = EngineInvoked p r"
    and "ingest env a' = EngineInvoked p' r'"
    and "effective_dest_table a = effective_dest_table a'"
  shows "pipeline_name p = pipeline_name p'"
  using engine_invokedD(9)[OF assms(1)] engine_invokedD(9)[OF assms(2)] assms(3)
  by simp

text \<open>
  The primary key enters the outcome through its normal form only.
\<close>

lemma ingest_primary_key_cong:
  assumes "normalize_primary_key pk = normalize_primary_key pk'"
  shows "ingest env (a\<lparr>primary_key := pk\<rparr>) = ingest env (a\<lparr>primary_key := pk'\<rparr>)"
  using assms
  by (simp add: ingest_def effective_dest_table_def Let_def
      cong: sum.case_cong option.case_cong prod.case_cong if_cong)

lemma resolve_strategy_cases:
  "resolve_strategy s k = (if s = ''delete+insert'' then (k, ''merge'') else (None, s))"
  by (simp add: resolve_strategy_def)

text \<open>The call the engine receives when every collaborator returns and the user confirms.\<close>

lemma ingest_reaches_engine:
  assumes "factory_new env (source_uri a) (dest_uri a) = Inr f"
    and "get_source env f = Inr s"
    and "get_destination env f = Inr d"
    and "sha256_hexdigest env (effective_dest_table a) = Inr h"
    and "confirm env"
  shows "ingest env a =
     EngineInvoked
       \<lparr>pipeline_name = h, dlt_dest_handle = d, dlt_dest_uri = dest_uri a,
        dump_system_stats = False, pipelines_dir = ''pipeline_data'',
        dataset_name = ''testschema''\<rparr>
       \<lparr>run_source =
          \<lparr>req_source = s, req_uri = source_uri a, req_table = source_table a,
           req_incremental_key = incremental_key a,
           req_merge_key = fst (resolve_strategy (incremental_strategy a) (incremental_key a)),
           req_interval_start = interval_start a, req_interval_end = interval_end a\<rparr>,
        run_destination = d, run_params_uri = dest_uri a,
        run_params_table = effective_dest_table a,
        write_disposition = snd (resolve_strategy (incremental_strategy a) (incremental_key a)),
        run_primary_key = normalize_primary_key (primary_key a)\<rparr>"
  using assms by (simp add: ingest_def Let_def split: prod.split)

lemma engine_invokedE:
  assumes "ingest env a = EngineInvoked p r"
  obtains f s d h where
    "factory_new env (source_uri a) (dest_uri a) = Inr f"
    "get_source env f = Inr s"
    "get_destination env f = Inr d"
    "sha256_hexdigest env (effective_dest_table a) = Inr h"
    "confirm env"
  using assms
  by (auto simp: ingest_def Let_def split: prod.splits sum.splits if_splits)

text \<open>Resolving a resolved strategy again leaves it as it is and gives no merge key.\<close>

lemma resolve_strategy_again:
  "resolve_strategy (snd (resolve_strategy s k)) k = (None, snd (resolve_strategy s k))"
  by (simp add: resolve_strategy_cases)


lemma ingest_orders: "ingest example_env orders_args = EngineInvoked orders_pipeline orders_run"
  by (simp add: example_defs)

lemma with_defaults_orders: "with_defaults orders_opts = orders_args"
  by (simp add: with_defaults_def orders_opts_def orders_args_def)



subsection \<open>The delete+insert strategy\<close>

text \<open>
  C1. An invocation with strategy \<open>delete+insert\<close> and incremental key \<open>k\<close> hands the
  engine the write disposition \<open>merge\<close> and the merge key \<open>k\<close> (whatever \<open>k\<close> is,
  \<open>None\<close> included).
\<close>

theorem delete_insert_resolves_to_merge:
  assumes "incremental_strategy a = ''delete+insert''"
    and "ingest env a = EngineInvoked p r"
  shows "write_disposition r = ''merge'' \<and> req_merge_key (run_source r) = incremental_key a"
  using engine_invokedD(2,7)[OF assms(2)] assms(1)
  by (simp add: resolve_strategy_cases)

theorem delete_insert_resolves_to_merge_witness:
  "incremental_strategy delete_insert_args = ''delete+insert'' \<and>
   incremental_key delete_insert_args = Some ''id'' \<and>
   ingest example_env delete_insert_args = EngineInvoked orders_pipeline delete_insert_run \<and>
   write_disposition delete_insert_run = ''merge'' \<and>
   req_merge_key (run_source delete_insert_run) = Some ''id''"
proof -
  have s: "incremental_strategy delete_insert_args = ''delete+insert''"
    by (simp add: delete_insert_args_def)
  have k: "incremental_key delete_insert_args = Some ''id''"
    by (simp add: delete_insert_args_def)
  have i: "ingest example_env delete_insert_args
             = EngineInvoked orders_pipeline delete_insert_run"
    by (simp add: example_defs delete_insert_args_def delete_insert_run_def)
  from delete_insert_resolves_to_merge[OF s i] s k i show ?thesis by simp
qed

text \<open>
  C10. The merge key handed to the source is the incremental key when the strategy given
  is \<open>delete+insert\<close> (also when that key is \<open>None\<close>) and \<open>None\<close> for every other
  strategy, \<open>replace\<close>, \<open>append\<close> and \<open>merge\<close> among them: \<open>ingest\<close> has no
  parameter for a merge key. So a merge key that is not \<open>None\<close> comes from
  \<open>delete+insert\<close> only.
\<close>

theorem merge_key_only_from_delete_insert:
  assumes "ingest env a = EngineInvoked p r"
  shows "req_merge_key (run_source r)
           = (if incremental_strategy a = ''delete+insert'' then incremental_key a else None)
       \<and> (req_merge_key (run_source r) \<noteq> None \<longrightarrow> incremental_strategy a = ''delete+insert'')
       \<and> (incremental_strategy a \<in> {''replace'', ''append'', ''merge''}
            \<longrightarrow> req_merge_key (run_source r) = None)"
proof -
  have k: "req_merge_key (run_source r)
           = (if incremental_strategy a = ''delete+insert'' then incremental_key a else None)"
    using engine_invokedD(2)[OF assms] by (simp add: resolve_strategy_cases)
  have n: "incremental_strategy a \<noteq> ''delete+insert''"
    if "incremental_strategy a \<in> {''replace'', ''append'', ''merge''}"
    using that by auto
  from k n show ?thesis by simp
qed


theorem merge_key_only_from_delete_insert_witness:
  "ingest example_env delete_insert_args = EngineInvoked orders_pipeline delete_insert_run \<and>
   req_merge_key (run_source delete_insert_run) = Some ''id'' \<and>
   incremental_strategy delete_insert_args = ''delete+insert'' \<and>
   ingest example_env merge_args = EngineInvoked orders_pipeline merge_run \<and>
   incremental_strategy merge_args \<in> {''replace'', ''append'', ''merge''} \<and>
   req_merge_key (run_source merge_run) = None"
proof -
  have i: "ingest example_env delete_insert_args
             = EngineInvoked orders_pipeline delete_insert_run"
    by (simp add: example_defs delete_insert_args_def delete_insert_run_def)
  have j: "ingest example_env merge_args = EngineInvoked orders_pipeline merge_run"
    by (simp add: example_defs merge_args_def merge_run_def)
  have k: "req_merge_key (run_source delete_insert_run) = Some ''id''"
    by (simp add: delete_insert_run_def)
  have m: "incremental_strategy merge_args \<in> {''replace'', ''append'', ''merge''}"
    by (simp add: merge_args_def)
  have d: "incremental_strategy delete_insert_args = ''delete+insert''"
    using merge_key_only_from_delete_insert[OF i] k by simp
  have n: "req_merge_key (run_source merge_run) = None"
    using merge_key_only_from_delete_insert[OF j] m by blast
  from i j k m d n show ?thesis by blast
qed

subsection \<open>Defaults and the primary key\<close>

text \<open>
  C7. When no destination table is given, the run writes to the table named as the
  source table, and names its pipeline by that table. When no strategy is given, the write disposition is \<open>replace\<close> and
  there is no merge key; and when no incremental key is given either, the source is
  asked for none.
\<close>

theorem defaults_dest_table_and_strategy:
  assumes "ingest env (with_defaults opts) = EngineInvoked p r"
  shows "(opt_dest_table opts = None \<longrightarrow>
            run_params_table r = opt_source_table opts \<and>
            sha256_hexdigest env (opt_source_table opts) = Inr (pipeline_name p))
       \<and> (opt_incremental_strategy opts = None
            \<longrightarrow> write_disposition r = ''replace'' \<and> req_merge_key (run_source r) = None)
       \<and> (opt_incremental_key opts = None \<longrightarrow> req_incremental_key (run_source r) = None)"
proof -
  have t: "effective_dest_table (with_defaults opts) = opt_source_table opts"
    if "opt_dest_table opts = None"
    using that by (simp add: effective_dest_table_def truthy_def with_defaults_def)
  have s: "incremental_strategy (with_defaults opts) = ''replace''"
    if "opt_incremental_strategy opts = None"
    using that by (simp add: with_defaults_def)
  have k: "incremental_key (with_defaults opts) = opt_incremental_key opts"
    by (simp add: with_defaults_def)
  show ?thesis
    using engine_invokedD(1,2,6,7,9)[OF assms] t s k
    by (auto simp: resolve_strategy_cases)
qed

theorem defaults_dest_table_and_strategy_witness:
  "ingest example_env (with_defaults orders_opts) = EngineInvoked orders_pipeline orders_run \<and>
   opt_dest_table orders_opts = None \<and>
   opt_incremental_strategy orders_opts = None \<and>
   opt_incremental_key orders_opts = None \<and>
   opt_source_table orders_opts = ''orders'' \<and>
   run_params_table orders_run = ''orders'' \<and>
   sha256_hexdigest example_env ''orders'' = Inr (pipeline_name orders_pipeline) \<and>
   write_disposition orders_run = ''replace'' \<and>
   req_merge_key (run_source orders_run) = None \<and>
   req_incremental_key (run_source orders_run) = None"
proof -
  have i: "ingest example_env (with_defaults orders_opts)
             = EngineInvoked orders_pipeline orders_run"
    by (simp add: with_defaults_orders ingest_orders)
  have o: "opt_dest_table orders_opts = None" "opt_incremental_strategy orders_opts = None"
    "opt_incremental_key orders_opts = None" "opt_source_table orders_opts = ''orders''"
    by (simp_all add: orders_opts_def)
  have h: "sha256_hexdigest example_env ''orders'' = Inr (pipeline_name orders_pipeline)"
    by (simp add: example_env_def orders_pipeline_def)
  from defaults_dest_table_and_strategy[OF i] i o h show ?thesis by simp
qed

text \<open>
  C8. An empty primary key list and a primary key that is not set give the same
  invocation of the engine, which receives \<open>None\<close> in both cases; a list that is not
  empty is passed as it is.
\<close>

theorem primary_key_normalized:
  "ingest env (a\<lparr>primary_key := Some []\<rparr>) = ingest env (a\<lparr>primary_key := None\<rparr>)
   \<and> (\<forall>p r. ingest env a = EngineInvoked p r \<longrightarrow>
         run_primary_key r = (if primary_key a = Some [] then None else primary_key a))"
proof -
  have "ingest env (a\<lparr>primary_key := Some []\<rparr>) = ingest env (a\<lparr>primary_key := None\<rparr>)"
    by (rule ingest_primary_key_cong) (simp add: normalize_primary_key_def)
  moreover have "run_primary_key r = (if primary_key a = Some [] then None else primary_key a)"
    if "ingest env a = EngineInvoked p r" for p r
    using engine_invokedD(8)[OF that]
    by (simp add: normalize_primary_key_def split: option.splits)
  ultimately show ?thesis by blast
qed

theorem primary_key_normalized_witness:
  "ingest example_env (merge_pk_args\<lparr>primary_key := Some []\<rparr>)
     = ingest example_env (merge_pk_args\<lparr>primary_key := None\<rparr>) \<and>
   ingest example_env (merge_pk_args\<lparr>primary_key := Some []\<rparr>)
     = EngineInvoked orders_pipeline merge_run \<and>
   run_primary_key merge_run = None \<and>
   ingest example_env merge_pk_args = EngineInvoked orders_pipeline merge_pk_run \<and>
   primary_key merge_pk_args = Some [''id'', ''region''] \<and>
   run_primary_key merge_pk_run = Some [''id'', ''region'']"
proof -
  have e: "ingest example_env (merge_pk_args\<lparr>primary_key := Some []\<rparr>)
             = EngineInvoked orders_pipeline merge_run"
    by (simp add: example_defs merge_pk_args_def merge_args_def merge_run_def)
  have i: "ingest example_env merge_pk_args = EngineInvoked orders_pipeline merge_pk_run"
    by (simp add: example_defs merge_pk_args_def merge_args_def merge_pk_run_def
        merge_run_def)
  have k: "primary_key merge_pk_args = Some [''id'', ''region'']"
    by (simp add: merge_pk_args_def)
  have n: "run_primary_key merge_run = None"
    by (simp add: merge_run_def orders_run_def)
  from primary_key_normalized[of example_env merge_pk_args] e i k n
  show ?thesis by simp
qed

subsection \<open>Invocations that \<open>ingest\<close> does not reject\<close>

text \<open>
  \<open>ingest\<close> relates none of its keys and bounds to one another: what it is given
  reaches the engine as given. The three properties below each pair a concrete run, on
  which the engine is called with the questionable plan, with the general statement of
  what is forwarded.
\<close>










subsection \<open>A strategy outside the four names\<close>

text \<open>
  C5. The help text of \<open>--incremental-strategy\<close> (line 59) says that the strategy
  must be one of \<open>replace\<close>, \<open>append\<close>, \<open>delete+insert\<close> and \<open>merge\<close>, and
  the property asked for is that any other name fails with \<open>UnsupportedStrategy\<close>
  before the engine is reached. \<open>ingest\<close> does not do that: given the strategy
  \<open>upsert\<close>, it does not fail and goes on to \<open>pipeline.run\<close> with \<open>upsert\<close> as
  the write disposition.
\<close>

theorem unknown_strategy_reaches_engine:
  "incremental_strategy upsert_args = ''upsert'' \<and>
   ''upsert'' \<notin> {''replace'', ''append'', ''delete+insert'', ''merge''} \<and>
   ingest example_env upsert_args = EngineInvoked orders_pipeline upsert_run \<and>
   write_disposition upsert_run = ''upsert'' \<and>
   ingest example_env upsert_args \<noteq> Failed UnsupportedStrategy"
proof -
  have i: "ingest example_env upsert_args = EngineInvoked orders_pipeline upsert_run"
    by (simp add: example_defs upsert_args_def upsert_run_def)
  have b: "incremental_strategy upsert_args = ''upsert''"
    "write_disposition upsert_run = ''upsert''"
    "''upsert'' \<notin> {''replace'', ''append'', ''delete+insert'', ''merge''}"
    by (simp_all add: upsert_args_def upsert_run_def)
  from i b show ?thesis by simp
qed

text \<open>
  The run on \<open>upsert\<close> is no accident of that name: the only comparison \<open>ingest\<close>
  makes on the strategy is with \<open>delete+insert\<close> (line 86), so every name outside
  the four gets as far as the engine whenever the collaborators return and the user
  confirms.
\<close>

lemma unknown_strategy_forwarded:
  assumes "incremental_strategy a \<notin> {''replace'', ''append'', ''delete+insert'', ''merge''}"
    and "collaborators_succeed env a"
    and "confirm env"
  shows "\<exists>p r. ingest env a = EngineInvoked p r \<and>
           write_disposition r = incremental_strategy a"
proof -
  from assms(2,3) obtain p r where i: "ingest env a = EngineInvoked p r"
    using engine_invoked_iff[of env a] by blast
  have n: "incremental_strategy a \<noteq> ''delete+insert''"
    using assms(1) by blast
  from engine_invokedD(7)[OF i] n have "write_disposition r = incremental_strategy a"
    by (simp add: resolve_strategy_cases)
  with i show ?thesis by blast
qed

subsection \<open>Resolving a resolved strategy again\<close>

text \<open>
  The delete+insert invocation with incremental key \<open>id\<close> resolves to \<open>merge\<close> with
  merge key \<open>id\<close>. Run again with \<open>merge\<close> as its strategy and the same keys, it
  hands the engine a call without a merge key: the two calls differ.
\<close>

theorem reresolution_counterexample:
  "ingest example_env delete_insert_args = EngineInvoked orders_pipeline delete_insert_run \<and>
   write_disposition delete_insert_run = ''merge'' \<and>
   ingest example_env (delete_insert_args\<lparr>incremental_strategy := ''merge''\<rparr>)
     = EngineInvoked orders_pipeline reresolved_run \<and>
   req_merge_key (run_source delete_insert_run) = Some ''id'' \<and>
   req_merge_key (run_source reresolved_run) = None \<and>
   reresolved_run \<noteq> delete_insert_run"
proof -
  have i: "ingest example_env delete_insert_args
             = EngineInvoked orders_pipeline delete_insert_run"
    by (simp add: example_defs delete_insert_args_def delete_insert_run_def)
  have j: "ingest example_env (delete_insert_args\<lparr>incremental_strategy := ''merge''\<rparr>)
             = EngineInvoked orders_pipeline reresolved_run"
    by (simp add: example_defs delete_insert_args_def reresolved_run_def)
  have k: "write_disposition delete_insert_run = ''merge''"
    "req_merge_key (run_source delete_insert_run) = Some ''id''"
    "req_merge_key (run_source reresolved_run) = None"
    by (simp_all add: delete_insert_run_def reresolved_run_def orders_request_def)
  from k(2,3) have n: "reresolved_run \<noteq> delete_insert_run" by auto
  from i j k n show ?thesis by simp
qed

text \<open>
  C9, amended. Running an invocation again with the write disposition it resolved to as
  its strategy, and the same keys, gives the same call to the engine but for the merge
  key, which is \<open>None\<close> the second time. The write disposition is a fixed point; the
  whole outcome is the same when the first call had no merge key, as it is for
  \<open>replace\<close>, \<open>append\<close> and \<open>merge\<close>.
\<close>

theorem reresolution_resets_merge_key:
  assumes "ingest env a = EngineInvoked p r"
  shows "ingest env (a\<lparr>incremental_strategy := write_disposition r\<rparr>)
           = EngineInvoked p (r\<lparr>run_source := (run_source r)\<lparr>req_merge_key := None\<rparr>\<rparr>)
       \<and> (req_merge_key (run_source r) = None \<longrightarrow>
            ingest env (a\<lparr>incremental_strategy := write_disposition r\<rparr>) = ingest env a)
       \<and> (incremental_strategy a \<in> {''replace'', ''append'', ''merge''} \<longrightarrow>
            ingest env (a\<lparr>incremental_strategy := write_disposition r\<rparr>) = ingest env a)"
proof -
  let ?a = "a\<lparr>incremental_strategy := write_disposition r\<rparr>"
  from assms obtain f s d h where c:
    "factory_new env (source_uri a) (dest_uri a) = Inr f"
    "get_source env f = Inr s"
    "get_destination env f = Inr d"
    "sha256_hexdigest env (effective_dest_table a) = Inr h"
    "confirm env"
    by (rule engine_invokedE)
  have e: "effective_dest_table (a\<lparr>incremental_strategy := x\<rparr>) = effective_dest_table a"
    for x
    by (simp add: effective_dest_table_def split: option.split)
  have w: "write_disposition r
             = snd (resolve_strategy (incremental_strategy a) (incremental_key a))"
    by (rule engine_invokedD(7)[OF assms])
  have c': "factory_new env (source_uri ?a) (dest_uri ?a) = Inr f"
    "sha256_hexdigest env (effective_dest_table ?a) = Inr h"
    using c(1,4) e by simp_all
  have first: "EngineInvoked p r = ingest env a"
    using assms by simp
  have again: "ingest env ?a
                 = EngineInvoked p (r\<lparr>run_source := (run_source r)\<lparr>req_merge_key := None\<rparr>\<rparr>)"
    unfolding ingest_reaches_engine[OF c'(1) c(2,3) c'(2) c(5)]
    using first[unfolded ingest_reaches_engine[OF c]]
    by (simp add: e resolve_strategy_again)
  have same: "ingest env ?a = ingest env a" if "req_merge_key (run_source r) = None"
    using again that assms by simp
  have valid: "req_merge_key (run_source r) = None"
    if "incremental_strategy a \<in> {''replace'', ''append'', ''merge''}"
    using engine_invokedD(2)[OF assms] that by (auto simp: resolve_strategy_cases)
  show ?thesis
  proof (intro conjI impI)
    show "ingest env ?a
            = EngineInvoked p (r\<lparr>run_source := (run_source r)\<lparr>req_merge_key := None\<rparr>\<rparr>)"
      by (rule again)
  next
    assume "req_merge_key (run_source r) = None"
    then show "ingest env ?a = ingest env a" by (rule same)
  next
    assume "incremental_strategy a \<in> {''replace'', ''append'', ''merge''}"
    then have "req_merge_key (run_source r) = None" by (rule valid)
    then show "ingest env ?a = ingest env a" by (rule same)
  qed
qed

theorem reresolution_resets_merge_key_witness:
  "ingest example_env delete_insert_args = EngineInvoked orders_pipeline delete_insert_run \<and>
   ingest example_env
     (delete_insert_args\<lparr>incremental_strategy := write_disposition delete_insert_run\<rparr>)
     = EngineInvoked orders_pipeline
         (delete_insert_run\<lparr>run_source := (run_source delete_insert_run)\<lparr>req_merge_key := None\<rparr>\<rparr>) \<and>
   ingest example_env merge_args = EngineInvoked orders_pipeline merge_run \<and>
   incremental_strategy merge_args \<in> {''replace'', ''append'', ''merge''} \<and>
   req_merge_key (run_source merge_run) = None \<and>
   ingest example_env (merge_args\<lparr>incremental_strategy := write_disposition merge_run\<rparr>)
     = ingest example_env merge_args"
proof -
  have i: "ingest example_env delete_insert_args
             = EngineInvoked orders_pipeline delete_insert_run"
    by (simp add: example_defs delete_insert_args_def delete_insert_run_def)
  have j: "ingest example_env merge_args = EngineInvoked orders_pipeline merge_run"
    by (simp add: example_defs merge_args_def merge_run_def)
  have m: "incremental_strategy merge_args \<in> {''replace'', ''append'', ''merge''}"
    by (simp add: merge_args_def)
  have n: "req_merge_key (run_source merge_run) = None"
    by (simp add: merge_run_def orders_run_def orders_request_def)
  from reresolution_resets_merge_key[OF i] reresolution_resets_merge_key[OF j] i j m n
  show ?thesis by blast
qed

end
